theory Spec2Isabelle
  imports Complex_Main
begin

section \<open>Python floats\<close>

text \<open>
  Every number the strategy handles is a Python \<^verbatim>\<open>float\<close>, an IEEE 754 double: the
  values of the line buffers (\<^verbatim>\<open>self.data.close[0]\<close>, \<^verbatim>\<open>self.fast_ema[0]\<close>, ...),
  the broker's portfolio value and the two float parameters. A float is NaN, an infinity
  or a finite value, and a finite value is carried as the rational number it denotes.
  Each arithmetic operation rounds its exact result to the nearest double, ties to the
  even significand, with gradual underflow and with overflow to an infinity. The two zeros
  are one value: nothing in \<^verbatim>\<open>next\<close> tells them apart (both are falsy, both compare
  equal, both raise as a divisor, and \<^verbatim>\<open>int\<close> of both is 0).
\<close>

datatype pyfloat = NaN | PInf | NInf | Fin rat

datatype pyerror = ZeroDivisionError | ValueError | OverflowError

subsection \<open>Rounding to a double\<close>

text \<open>The number of binary digits of a positive integer (Python's \<^verbatim>\<open>int.bit_length\<close>).\<close>

function bit_length :: "int \<Rightarrow> int" where
  "bit_length k = (if k \<le> 0 then 0 else 1 + bit_length (k div 2))"
  by auto
termination
  by (relation "measure nat") auto

declare bit_length.simps [simp del]

text \<open>
  The binary exponent of a positive rational: the \<open>e\<close> with \<open>2\<^sup>e \<le> a < 2\<^sup>e\<^sup>+\<^sup>1\<close>
  (lemma \<open>binade_bounds\<close> below).
\<close>

definition binade :: "rat \<Rightarrow> int" where
  "binade a =
     (if 1 \<le> a then bit_length \<lfloor>a\<rfloor> - 1 else - bit_length (\<lceil>1 / a\<rceil> - 1))"

text \<open>The nearest integer, a tie going to the even one.\<close>

definition round_half_even :: "rat \<Rightarrow> int" where
  "round_half_even m =
     (let n = \<lfloor>m\<rfloor>; r = m - of_int n
      in if r < 1 / 2 then n else if 1 / 2 < r then n + 1 else if even n then n else n + 1)"

text \<open>
  A positive rational rounded to a double. A double has a significand of 53 bits: with
  the exponent \<open>e\<close> of the value, not below the least normal exponent -1022, it is a whole
  multiple \<open>n\<close> of \<open>2\<^sup>e\<^sup>-\<^sup>5\<^sup>2\<close>. The greatest double is \<open>(2\<^sup>5\<^sup>3 - 1) * 2\<^sup>9\<^sup>7\<^sup>1\<close>; the result
  is an infinity when the exponent is above 1023 or the significand is carried to
  \<open>2\<^sup>5\<^sup>3\<close> at exponent 1023.
\<close>

definition fround_pos :: "rat \<Rightarrow> pyfloat" where
  "fround_pos a =
     (let e = max (binade a) (- 1022);
          n = round_half_even (a / 2 powi (e - 52))
      in if 1023 < e \<or> (e = 1023 \<and> n = 2 ^ 53) then PInf
         else Fin (of_int n * 2 powi (e - 52)))"

definition fneg :: "pyfloat \<Rightarrow> pyfloat" where
  "fneg a = (case a of NaN \<Rightarrow> NaN | PInf \<Rightarrow> NInf | NInf \<Rightarrow> PInf | Fin x \<Rightarrow> Fin (- x))"

text \<open>
  Rounding is symmetric about zero. \<open>fround\<close> is also the value of a decimal literal
  of the source, such as \<^verbatim>\<open>0.95\<close>.
\<close>

definition fround :: "rat \<Rightarrow> pyfloat" where
  "fround x =
     (if x = 0 then Fin 0 else if 0 < x then fround_pos x else fneg (fround_pos (- x)))"

subsection \<open>Comparison and arithmetic\<close>

text \<open>\<^verbatim>\<open>a < b\<close>, \<^verbatim>\<open>a <= b\<close> and \<^verbatim>\<open>a > b\<close> on floats.\<close>

fun flt :: "pyfloat \<Rightarrow> pyfloat \<Rightarrow> bool" where
  "flt NaN b = False"
| "flt a NaN = False"
| "flt PInf b = False"
| "flt a NInf = False"
| "flt NInf b = True"
| "flt a PInf = True"
| "flt (Fin x) (Fin y) = (x < y)"

fun fle :: "pyfloat \<Rightarrow> pyfloat \<Rightarrow> bool" where
  "fle NaN b = False"
| "fle a NaN = False"
| "fle NInf b = True"
| "fle a PInf = True"
| "fle PInf b = False"
| "fle a NInf = False"
| "fle (Fin x) (Fin y) = (x \<le> y)"

definition fgt :: "pyfloat \<Rightarrow> pyfloat \<Rightarrow> bool" where
  "fgt a b = flt b a"

text \<open>The infinity of a given sign (\<open>True\<close> is negative).\<close>

definition inf_of :: "bool \<Rightarrow> pyfloat" where
  "inf_of neg = (if neg then NInf else PInf)"

text \<open>\<^verbatim>\<open>a * b\<close>: the rounded product; an infinity times zero is NaN.\<close>

fun fmul :: "pyfloat \<Rightarrow> pyfloat \<Rightarrow> pyfloat" where
  "fmul NaN b = NaN"
| "fmul a NaN = NaN"
| "fmul (Fin x) (Fin y) = fround (x * y)"
| "fmul PInf (Fin y) = (if y = 0 then NaN else inf_of (y < 0))"
| "fmul NInf (Fin y) = (if y = 0 then NaN else inf_of (0 < y))"
| "fmul (Fin x) PInf = (if x = 0 then NaN else inf_of (x < 0))"
| "fmul (Fin x) NInf = (if x = 0 then NaN else inf_of (0 < x))"
| "fmul PInf PInf = PInf"
| "fmul PInf NInf = NInf"
| "fmul NInf PInf = NInf"
| "fmul NInf NInf = PInf"

text \<open>\<^verbatim>\<open>a - b\<close>: the rounded difference; that of two equal infinities is NaN.\<close>

fun fsub :: "pyfloat \<Rightarrow> pyfloat \<Rightarrow> pyfloat" where
  "fsub NaN b = NaN"
| "fsub a NaN = NaN"
| "fsub (Fin x) (Fin y) = fround (x - y)"
| "fsub PInf PInf = NaN"
| "fsub NInf NInf = NaN"
| "fsub PInf b = PInf"
| "fsub NInf b = NInf"
| "fsub (Fin x) PInf = NInf"
| "fsub (Fin x) NInf = PInf"

text \<open>
  \<^verbatim>\<open>a / b\<close>: Python tests the divisor first and raises \<^verbatim>\<open>ZeroDivisionError\<close> when
  it is zero, whatever the dividend; otherwise the rounded quotient.
\<close>

fun fdiv :: "pyfloat \<Rightarrow> pyfloat \<Rightarrow> pyerror + pyfloat" where
  "fdiv a (Fin y) =
     (if y = 0 then Inl ZeroDivisionError
      else case a of
        NaN \<Rightarrow> Inr NaN
      | PInf \<Rightarrow> Inr (inf_of (y < 0))
      | NInf \<Rightarrow> Inr (inf_of (0 < y))
      | Fin x \<Rightarrow> Inr (fround (x / y)))"
| "fdiv a NaN = Inr NaN"
| "fdiv NaN b = Inr NaN"
| "fdiv (Fin x) b = Inr (Fin 0)"
| "fdiv a b = Inr NaN"

text \<open>
  \<^verbatim>\<open>int(x)\<close>: \<^verbatim>\<open>ValueError\<close> on NaN, \<^verbatim>\<open>OverflowError\<close> on an infinity, and the
  integer part (rounding towards zero) of a finite value.
\<close>

fun py_int :: "pyfloat \<Rightarrow> pyerror + int" where
  "py_int NaN = Inl ValueError"
| "py_int PInf = Inl OverflowError"
| "py_int NInf = Inl OverflowError"
| "py_int (Fin x) = Inr (if 0 \<le> x then \<lfloor>x\<rfloor> else \<lceil>x\<rceil>)"

text \<open>
  The truth value of \<^verbatim>\<open>self.stop_price\<close>, which is \<^verbatim>\<open>None\<close> or a float:
  \<^verbatim>\<open>None\<close> and \<^verbatim>\<open>0.0\<close> are falsy, every other float (NaN too) is truthy.
\<close>

fun truthy :: "pyfloat option \<Rightarrow> bool" where
  "truthy None = False"
| "truthy (Some (Fin x)) = (x \<noteq> 0)"
| "truthy (Some a) = True"

section \<open>The strategy\<close>

text \<open>\<^verbatim>\<open>params\<close> of \<^verbatim>\<open>FinalProfitableStrategy\<close>, with the defaults of the class.\<close>

record params =
  fast_ema_period :: int
  slow_ema_period :: int
  position_pct :: pyfloat
  atr_period :: int
  stop_atr_multiplier :: pyfloat

definition default_params :: params where
  "default_params =
     \<lparr>fast_ema_period = 50, slow_ema_period = 200, position_pct = fround (95 / 100),
      atr_period = 14, stop_atr_multiplier = Fin 8\<rparr>"

text \<open>
  The attributes that the class itself assigns: \<^verbatim>\<open>entry_price\<close>, \<^verbatim>\<open>stop_price\<close>
  and \<^verbatim>\<open>trade_count\<close>, as \<^verbatim>\<open>__init__\<close> leaves them.
\<close>

record strategy =
  entry_price :: "pyfloat option"
  stop_price :: "pyfloat option"
  trade_count :: int

definition strategy_init :: strategy where
  "strategy_init = \<lparr>entry_price = None, stop_price = None, trade_count = 0\<rparr>"

text \<open>
  What \<^verbatim>\<open>next\<close> reads from the framework on one bar. \<open>position\<close> is the size of the
  broker's position (\<^verbatim>\<open>if self.position\<close> tests that it is not zero); the line
  buffers are indexed as in the code, \<open>0\<close> for the current bar and \<open>-1\<close> for the
  previous one; \<open>getvalue\<close> is \<^verbatim>\<open>self.broker.getvalue()\<close>.
\<close>

record feed =
  position :: int
  data_close :: "int \<Rightarrow> pyfloat"
  fast_ema :: "int \<Rightarrow> pyfloat"
  slow_ema :: "int \<Rightarrow> pyfloat"
  atr :: "int \<Rightarrow> pyfloat"
  getvalue :: pyfloat

text \<open>
  The orders that one call of \<^verbatim>\<open>next\<close> issues. \<^verbatim>\<open>self.buy(size=size)\<close> is
  \<open>EnterLong size\<close>; \<^verbatim>\<open>self.close()\<close> is \<open>ExitPosition\<close>, with the reason that the
  line printed after it gives (\<^verbatim>\<open>EXIT: Trend reversal\<close> or \<^verbatim>\<open>EXIT: Stop loss\<close>).
  A call that issues no order returns the empty list.
\<close>

datatype exit_reason = Trend_reversal | Stop_loss

datatype decision = EnterLong int | ExitPosition exit_reason

abbreviation (input) NoAction :: "decision list" where
  "NoAction \<equiv> []"

text \<open>\<^verbatim>\<open>self.stop_price and self.data.close[0] < self.stop_price\<close>\<close>

definition stop_hit :: "strategy \<Rightarrow> feed \<Rightarrow> bool" where
  "stop_hit s e =
     (truthy (stop_price s) \<and>
      (case stop_price s of None \<Rightarrow> False | Some sp \<Rightarrow> flt (data_close e 0) sp))"

text \<open>
  \<^verbatim>\<open>self.fast_ema[0] > self.slow_ema[0] and self.fast_ema[-1] <= self.slow_ema[-1]\<close>
\<close>

definition golden_cross :: "feed \<Rightarrow> bool" where
  "golden_cross e =
     (fgt (fast_ema e 0) (slow_ema e 0) \<and> fle (fast_ema e (- 1)) (slow_ema e (- 1)))"

text \<open>
  \<^verbatim>\<open>int((portfolio_value * self.p.position_pct) / self.data.close[0])\<close>, with the
  exceptions of the division and of \<^verbatim>\<open>int\<close>.
\<close>

definition entry_size :: "params \<Rightarrow> feed \<Rightarrow> pyerror + int" where
  "entry_size p e =
     (case fdiv (fmul (getvalue e) (position_pct p)) (data_close e 0) of
        Inl err \<Rightarrow> Inl err
      | Inr q \<Rightarrow> py_int q)"

text \<open>
  \<^verbatim>\<open>self.data.close[0] - (self.atr[0] * self.p.stop_atr_multiplier)\<close>
\<close>

definition entry_stop :: "params \<Rightarrow> feed \<Rightarrow> pyfloat" where
  "entry_stop p e = fsub (data_close e 0) (fmul (atr e 0) (stop_atr_multiplier p))"

text \<open>
  \<^verbatim>\<open>next\<close>: the state after the call and the orders issued, or the exception raised.
  With a position open, the trend test comes first and returns; the stop test follows.
  With no position, a golden cross computes the size and, when it is at least 1, buys and
  assigns \<^verbatim>\<open>self.stop_price\<close> in the same call.
\<close>

definition next_bar :: "params \<Rightarrow> strategy \<Rightarrow> feed \<Rightarrow> pyerror + (strategy \<times> decision list)" where
  "next_bar p s e =
     (if position e \<noteq> 0 then
        (if flt (fast_ema e 0) (slow_ema e 0) then Inr (s, [ExitPosition Trend_reversal])
         else if stop_hit s e then Inr (s, [ExitPosition Stop_loss])
         else Inr (s, NoAction))
      else
        (if golden_cross e then
           (case entry_size p e of
              Inl err \<Rightarrow> Inl err
            | Inr size' \<Rightarrow>
                if 1 \<le> size'
                then Inr (s\<lparr>stop_price := Some (entry_stop p e)\<rparr>, [EnterLong size'])
                else Inr (s, NoAction))
         else Inr (s, NoAction)))"

text \<open>
  The orders that the broker notifies: \<^verbatim>\<open>order.status\<close>, the side
  (\<^verbatim>\<open>order.isbuy()\<close>, \<^verbatim>\<open>order.issell()\<close>) and \<^verbatim>\<open>order.executed.price\<close>.
\<close>

datatype order_status =
  Created | Submitted | Accepted | Partial | Completed | Canceled | Expired | Margin | Rejected

datatype order_side = Buy | Sell

record order =
  status :: order_status
  side :: order_side
  executed_price :: pyfloat

definition isbuy :: "order \<Rightarrow> bool" where
  "isbuy ord = (side ord = Buy)"

definition issell :: "order \<Rightarrow> bool" where
  "issell ord = (side ord = Sell)"

text \<open>\<^verbatim>\<open>notify_order\<close>: only a completed order changes the state.\<close>

definition notify_order :: "strategy \<Rightarrow> order \<Rightarrow> strategy" where
  "notify_order s ord =
     (if status ord \<in> {Completed} then
        (if isbuy ord
         then s\<lparr>entry_price := Some (executed_price ord), trade_count := trade_count s + 1\<rparr>
         else if issell ord then s\<lparr>entry_price := None\<rparr>
         else s)
      else s)"

section \<open>Example bars and orders\<close>

text \<open>
  A bar as \<^verbatim>\<open>next\<close> sees it, from the position size, the close, the two averages on
  the current and on the previous bar, the average true range and the portfolio value.
\<close>

definition bar ::
  "int \<Rightarrow> pyfloat \<Rightarrow> pyfloat \<Rightarrow> pyfloat \<Rightarrow> pyfloat \<Rightarrow> pyfloat \<Rightarrow> pyfloat \<Rightarrow> pyfloat \<Rightarrow> feed" where
  "bar pos c f0 s0 f1 s1 a v =
     \<lparr>position = pos, data_close = (\<lambda>i. c),
      fast_ema = (\<lambda>i. if i = 0 then f0 else f1),
      slow_ema = (\<lambda>i. if i = 0 then s0 else s1),
      atr = (\<lambda>i. a), getvalue = v\<rparr>"

text \<open>
  No position, the fast average crosses above the slow one (99 to 101 against 100), with
  a portfolio of 100000, an average true range of 2 and the close given.
\<close>

definition cross_bar :: "pyfloat \<Rightarrow> feed" where
  "cross_bar c = bar 0 c (Fin 101) (Fin 100) (Fin 99) (Fin 100) (Fin 2) (Fin 100000)"

text \<open>No position, the fast average above the slow one on both bars.\<close>

definition uptrend_bar :: feed where
  "uptrend_bar = bar 0 (Fin 100) (Fin 102) (Fin 100) (Fin 101) (Fin 100) (Fin 2) (Fin 100000)"

text \<open>A position of the given size is open, the fast average is above the slow one.\<close>

definition holding_bar :: "int \<Rightarrow> pyfloat \<Rightarrow> feed" where
  "holding_bar n c = bar n c (Fin 101) (Fin 100) (Fin 101) (Fin 100) (Fin 2) (Fin 100000)"

text \<open>A position of the given size is open, the fast average is below the slow one.\<close>

definition reversal_bar :: "int \<Rightarrow> pyfloat \<Rightarrow> feed" where
  "reversal_bar n c = bar n c (Fin 99) (Fin 100) (Fin 101) (Fin 100) (Fin 2) (Fin 100000)"

text \<open>The state after \<^verbatim>\<open>next\<close> has bought on \<open>cross_bar (Fin 100)\<close>, and after the fill.\<close>

definition ordered :: strategy where
  "ordered = \<lparr>entry_price = None, stop_price = Some (Fin 84), trade_count = 0\<rparr>"

definition holding :: strategy where
  "holding = \<lparr>entry_price = Some (Fin 100), stop_price = Some (Fin 84), trade_count = 1\<rparr>"

definition filled :: "order_side \<Rightarrow> pyfloat \<Rightarrow> order" where
  "filled sd pr = \<lparr>status = Completed, side = sd, executed_price = pr\<rparr>"

definition refused :: "order_side \<Rightarrow> order" where
  "refused sd = \<lparr>status = Rejected, side = sd, executed_price = Fin 0\<rparr>"

section \<open>Facts about floats and the two branches of \<^verbatim>\<open>next\<close>\<close>

lemma flt_NaN_right [simp]: "flt a NaN = False"
  by (cases a) simp_all

lemma fle_NaN_right [simp]: "fle a NaN = False"
  by (cases a) simp_all

lemma fgt_NaN [simp]: "fgt NaN b = False" "fgt a NaN = False"
  by (simp_all add: fgt_def)

lemma fgt_not_fle: "fgt a b \<Longrightarrow> \<not> fle a b"
  by (cases a; cases b) (simp_all add: fgt_def)

text \<open>A close that is not negative and lies below the stop leaves the stop truthy.\<close>

lemma stop_above_close_truthy: "fle (Fin 0) c \<Longrightarrow> flt c sp \<Longrightarrow> truthy (Some sp)"
  by (cases c; cases sp) auto




text \<open>The exponent that \<open>binade\<close> computes is the right one.\<close>

lemma bit_length_nonneg: "0 \<le> bit_length k"
  by (induction k rule: bit_length.induct) (subst bit_length.simps, simp)

lemma bit_length_bounds:
  "0 < k \<Longrightarrow> 2 ^ nat (bit_length k - 1) \<le> k \<and> k < 2 ^ nat (bit_length k)"
proof (induction k rule: bit_length.induct)
  case (1 k)
  show ?case
  proof (cases "k = 1")
    case True
    have "bit_length 1 = 1"
      by (simp add: bit_length.simps [of 1] bit_length.simps [of 0])
    with True show ?thesis by simp
  next
    case False
    with "1.prems" have h: "0 < k div 2" by simp
    let ?b = "bit_length (k div 2)"
    from "1.IH" "1.prems" h
    have ih: "2 ^ nat (?b - 1) \<le> k div 2" "k div 2 < 2 ^ nat ?b"
      by simp_all
    have bpos: "1 \<le> ?b"
      using h bit_length_nonneg [of "k div 2 div 2"] by (subst bit_length.simps) simp
    have bk: "bit_length k = 1 + ?b"
      using "1.prems" by (subst bit_length.simps) simp
    from bpos have e1: "nat (1 + ?b - 1) = Suc (nat (?b - 1))" and e2: "nat (1 + ?b) = Suc (nat ?b)"
      by simp_all
    from ih show ?thesis
      unfolding bk e1 e2 by simp presburger
  qed
qed

lemma bit_length_pos: "0 < k \<Longrightarrow> 1 \<le> bit_length k"
  using bit_length_nonneg [of "k div 2"] by (subst bit_length.simps) simp

lemma binade_bounds:
  assumes "0 < a"
  shows "2 powi binade a \<le> a \<and> a < 2 powi (binade a + 1)"
proof (cases "1 \<le> a")
  case True
  let ?k = "\<lfloor>a\<rfloor>"
  let ?b = "bit_length ?k"
  from True have k: "0 < ?k" by simp
  from bit_length_bounds [OF k] have lo: "2 ^ nat (?b - 1) \<le> ?k" and hi: "?k < 2 ^ nat ?b"
    by simp_all
  from bit_length_pos [OF k] have b: "1 \<le> ?b" .
  from True have bin: "binade a = ?b - 1"
    by (simp add: binade_def)
  from b have p1: "(2 :: rat) powi (?b - 1) = 2 ^ nat (?b - 1)"
    and p2: "(2 :: rat) powi (?b - 1 + 1) = 2 ^ nat ?b"
    by (simp_all add: power_int_def)
  from lo have "of_int (2 ^ nat (?b - 1)) \<le> a"
    by (simp only: le_floor_iff)
  then have l: "(2 :: rat) ^ nat (?b - 1) \<le> a"
    by simp
  from hi have "a < of_int (2 ^ nat ?b)"
    by (simp only: floor_less_iff)
  then have h: "a < (2 :: rat) ^ nat ?b"
    by simp
  from l h show ?thesis
    unfolding bin p1 p2 by simp
next
  case False
  let ?t = "1 / a"
  let ?m = "\<lceil>?t\<rceil> - 1"
  let ?j = "bit_length ?m"
  from False assms have t: "1 < ?t" by simp
  then have m: "0 < ?m" by (simp add: less_ceiling_iff)
  from bit_length_bounds [OF m] have lo: "2 ^ nat (?j - 1) \<le> ?m" and hi: "?m < 2 ^ nat ?j"
    by simp_all
  from bit_length_pos [OF m] have j: "1 \<le> ?j" .
  from False have bin: "binade a = - ?j"
    by (simp add: binade_def)
  from j have p1: "(2 :: rat) powi (- ?j) = 1 / 2 ^ nat ?j"
    and p2: "(2 :: rat) powi (- ?j + 1) = 1 / 2 ^ nat (?j - 1)"
    by (simp_all add: power_int_def field_simps nat_diff_distrib)
  from hi have "\<lceil>?t\<rceil> \<le> 2 ^ nat ?j" by simp
  then have "?t \<le> of_int (2 ^ nat ?j)"
    by (simp only: ceiling_le_iff)
  then have "?t \<le> 2 ^ nat ?j"
    by simp
  with assms have l: "1 / 2 ^ nat ?j \<le> a"
    by (simp add: field_simps)
  from lo have "2 ^ nat (?j - 1) < \<lceil>?t\<rceil>" by simp
  then have "of_int (2 ^ nat (?j - 1)) < ?t"
    by (simp only: less_ceiling_iff)
  then have "2 ^ nat (?j - 1) < ?t" by simp
  with assms have h: "a < 1 / 2 ^ nat (?j - 1)"
    by (simp add: field_simps)
  from l h show ?thesis
    unfolding bin p1 p2 by simp
qed

lemma binade_unique:
  assumes "2 powi k \<le> a" and "a < 2 powi (k + 1)"
  shows "binade a = k"
proof -
  have "(0 :: rat) < 2 powi k" by simp
  from this assms(1) have pos: "0 < a" by (rule less_le_trans)
  from binade_bounds [OF pos] have b: "2 powi binade a \<le> a" "a < 2 powi (binade a + 1)"
    by simp_all
  from assms(1) b(2) have "(2 :: rat) powi k < 2 powi (binade a + 1)" by simp
  then have "k < binade a + 1"
    by (metis linorder_not_less one_less_numeral_iff power_int_increasing semiring_norm(76) less_eq_rat_def not_le order.strict_implies_order)
  moreover from assms(2) b(1) have "(2 :: rat) powi binade a < 2 powi (k + 1)" by simp
  then have "binade a < k + 1"
    by (metis linorder_not_less one_less_numeral_iff power_int_increasing semiring_norm(76) less_eq_rat_def not_le order.strict_implies_order)
  ultimately show ?thesis by simp
qed


text \<open>The rounded value is within half a unit of the exact one.\<close>

lemma round_half_even_near: "\<bar>of_int (round_half_even m) - m\<bar> \<le> 1 / 2"
proof -
  have "of_int \<lfloor>m\<rfloor> \<le> m" "m < of_int \<lfloor>m\<rfloor> + 1"
    by linarith+
  then show ?thesis
    by (auto simp: round_half_even_def Let_def)
qed

lemma fround_pos_near:
  assumes "fround_pos a = Fin r"
  shows "\<bar>r - a\<bar> \<le> 2 powi (max (binade a) (- 1022) - 52) / 2"
proof -
  let ?u = "(2 :: rat) powi (max (binade a) (- 1022) - 52)"
  have u: "0 < ?u" by simp
  from assms have r: "r = of_int (round_half_even (a / ?u)) * ?u"
    by (simp add: fround_pos_def Let_def split: if_splits)
  have "\<bar>r - a\<bar> = \<bar>of_int (round_half_even (a / ?u)) - a / ?u\<bar> * ?u"
    unfolding r using u by (simp add: abs_mult_pos [symmetric] field_simps)
  also have "\<dots> \<le> 1 / 2 * ?u"
    using round_half_even_near [of "a / ?u"] u by (intro mult_right_mono) simp_all
  finally show ?thesis by simp
qed


lemma next_bar_open:
  "position e \<noteq> 0 \<Longrightarrow>
   next_bar p s e =
     Inr (s, if flt (fast_ema e 0) (slow_ema e 0) then [ExitPosition Trend_reversal]
             else if stop_hit s e then [ExitPosition Stop_loss] else NoAction)"
  by (simp add: next_bar_def)

lemma next_bar_flat:
  "position e = 0 \<Longrightarrow>
   next_bar p s e =
     (if golden_cross e then
        (case entry_size p e of
           Inl err \<Rightarrow> Inl err
         | Inr n \<Rightarrow> if 1 \<le> n then Inr (s\<lparr>stop_price := Some (entry_stop p e)\<rparr>, [EnterLong n])
                    else Inr (s, NoAction))
      else Inr (s, NoAction))"
  by (simp add: next_bar_def)

text \<open>Rounding towards zero and rounding down agree on whether the size reaches 1.\<close>

lemma trunc_ge_1: "(1 \<le> (if 0 \<le> q then \<lfloor>q\<rfloor> else \<lceil>q :: rat\<rceil>)) = (1 \<le> \<lfloor>q\<rfloor>)"
  by (auto simp: le_floor_iff le_ceiling_iff)

lemma trunc_eq_floor: "1 \<le> \<lfloor>q :: rat\<rfloor> \<Longrightarrow> (if 0 \<le> q then \<lfloor>q\<rfloor> else \<lceil>q\<rceil>) = \<lfloor>q\<rfloor>"
  by (auto simp: le_floor_iff)


lemma py_int_Inr:
  "py_int q = Inr n \<Longrightarrow> \<exists>x. q = Fin x \<and> n = (if 0 \<le> x then \<lfloor>x\<rfloor> else \<lceil>x\<rceil>)"
  by (cases q) auto

text \<open>The size is \<^verbatim>\<open>int\<close> of the float quotient, whenever that quotient is finite.\<close>

lemma entry_size_quotient:
  "fdiv (fmul (getvalue e) (position_pct p)) (data_close e 0) = Inr (Fin q) \<Longrightarrow>
   entry_size p e = Inr (if 0 \<le> q then \<lfloor>q\<rfloor> else \<lceil>q\<rceil>)"
  by (simp add: entry_size_def)

lemma entry_size_Inr:
  assumes "entry_size p e = Inr n"
  shows "\<exists>q. fdiv (fmul (getvalue e) (position_pct p)) (data_close e 0) = Inr (Fin q) \<and>
           n = (if 0 \<le> q then \<lfloor>q\<rfloor> else \<lceil>q\<rceil>)"
proof -
  from assms obtain x
    where x: "fdiv (fmul (getvalue e) (position_pct p)) (data_close e 0) = Inr x"
      and n: "py_int x = Inr n"
    by (auto simp: entry_size_def split: sum.splits)
  from py_int_Inr [OF n] x show ?thesis by auto
qed

lemma truthy_iff: "truthy sp \<longleftrightarrow> sp \<noteq> None \<and> sp \<noteq> Some (Fin 0)"
  by (cases sp rule: truthy.cases) auto

lemma stop_loss_emitted:
  "next_bar p s e = Inr (s', ds) \<Longrightarrow> ExitPosition Stop_loss \<in> set ds \<Longrightarrow>
   position e \<noteq> 0 \<and> \<not> flt (fast_ema e 0) (slow_ema e 0) \<and> stop_hit s e"
  by (cases "position e = 0")
     (auto simp: next_bar_flat next_bar_open split: if_splits sum.splits)

lemma next_bar_state:
  "next_bar p s e = Inr (s', ds) \<Longrightarrow>
   (s' = s \<and> (\<forall>n. EnterLong n \<notin> set ds)) \<or>
   (position e = 0 \<and> (\<exists>n. ds = [EnterLong n]) \<and> s' = s\<lparr>stop_price := Some (entry_stop p e)\<rparr>)"
  by (cases "position e = 0")
     (auto simp: next_bar_flat next_bar_open split: if_splits sum.splits)

lemma next_bar_again:
  "next_bar p s e = Inr (s', ds) \<Longrightarrow> next_bar p s' e = Inr (s', ds)"
  by (cases "position e = 0")
     (auto simp: next_bar_flat next_bar_open split: if_splits sum.splits)

lemma notify_order_unfilled: "status ord \<noteq> Completed \<Longrightarrow> notify_order s ord = s"
  by (simp add: notify_order_def)

lemma notify_order_stop_price: "stop_price (notify_order s ord) = stop_price s"
  by (simp add: notify_order_def)

text \<open>The entry at a close of 100 that several examples below start from.\<close>

lemma position_pct_default:
  "position_pct default_params = Fin (4278419646001971 / 4503599627370496)"
  by code_simp

lemma entry_at_100:
  "next_bar default_params strategy_init (cross_bar (Fin 100)) = Inr (ordered, [EnterLong 950])"
  by code_simp

lemmas next_defs =
  next_bar_def golden_cross_def stop_hit_def entry_size_def entry_stop_def fgt_def
  notify_order_def isbuy_def issell_def

section \<open>Entry\<close>

text \<open>
  Claim C1. On a bar processed with no position open, \<^verbatim>\<open>next\<close> issues a buy if and only
  if the fast average is above the slow one on the current bar, was at or below it on the
  previous bar, and the computed size is at least 1. In particular, when the fast average
  was already strictly above the slow one on the previous bar, nothing is issued and the
  state is unchanged.
\<close>

theorem entry_iff_golden_cross:
  assumes "position e = 0"
  shows "((\<exists>s' ds n. next_bar p s e = Inr (s', ds) \<and> EnterLong n \<in> set ds) \<longleftrightarrow>
            fgt (fast_ema e 0) (slow_ema e 0) \<and> fle (fast_ema e (- 1)) (slow_ema e (- 1)) \<and>
            (\<exists>n. entry_size p e = Inr n \<and> 1 \<le> n)) \<and>
         (fgt (fast_ema e (- 1)) (slow_ema e (- 1)) \<longrightarrow> next_bar p s e = Inr (s, NoAction))"
proof (intro conjI impI)
  show "(\<exists>s' ds n. next_bar p s e = Inr (s', ds) \<and> EnterLong n \<in> set ds) \<longleftrightarrow>
          fgt (fast_ema e 0) (slow_ema e 0) \<and> fle (fast_ema e (- 1)) (slow_ema e (- 1)) \<and>
          (\<exists>n. entry_size p e = Inr n \<and> 1 \<le> n)"
    using assms
    by (auto simp: next_bar_flat golden_cross_def split: if_splits sum.splits)
next
  assume "fgt (fast_ema e (- 1)) (slow_ema e (- 1))"
  then have "\<not> golden_cross e"
    by (simp add: golden_cross_def fgt_not_fle)
  with assms show "next_bar p s e = Inr (s, NoAction)"
    by (simp add: next_bar_flat)
qed

theorem entry_iff_golden_cross_witness:
  "(\<exists>s' ds n. next_bar default_params strategy_init (cross_bar (Fin 100)) = Inr (s', ds) \<and>
      EnterLong n \<in> set ds) \<and>
   fgt (fast_ema uptrend_bar 0) (slow_ema uptrend_bar 0) \<and>
   fgt (fast_ema uptrend_bar (- 1)) (slow_ema uptrend_bar (- 1)) \<and>
   next_bar default_params strategy_init uptrend_bar = Inr (strategy_init, NoAction)"
proof -
  have c: "position (cross_bar (Fin 100)) = 0" and u: "position uptrend_bar = 0"
    by (simp_all add: bar_def cross_bar_def uptrend_bar_def)
  have sz: "entry_size default_params (cross_bar (Fin 100)) = Inr 950"
    by code_simp
  have "\<exists>s' ds n. next_bar default_params strategy_init (cross_bar (Fin 100)) = Inr (s', ds) \<and>
      EnterLong n \<in> set ds"
    using entry_iff_golden_cross [OF c, of default_params strategy_init] sz
    by (simp add: bar_def cross_bar_def fgt_def)
  moreover have "fgt (fast_ema uptrend_bar 0) (slow_ema uptrend_bar 0)"
    and up: "fgt (fast_ema uptrend_bar (- 1)) (slow_ema uptrend_bar (- 1))"
    by (simp_all add: bar_def uptrend_bar_def fgt_def)
  moreover have "next_bar default_params strategy_init uptrend_bar = Inr (strategy_init, NoAction)"
    using entry_iff_golden_cross [OF u, of default_params strategy_init] up by blast
  ultimately show ?thesis by blast
qed

text \<open>
  Claim C6. The size is the floor of the float quotient
  \<^verbatim>\<open>(portfolio_value * position_pct) / close\<close>: on every entry evaluation where that
  quotient is a finite float \<open>q\<close>, \<^verbatim>\<open>next\<close> buys \<open>\<lfloor>q\<rfloor>\<close> shares when \<open>\<lfloor>q\<rfloor>\<close> is at least 1
  and does nothing otherwise, and the size of every buy that \<^verbatim>\<open>next\<close> issues is the floor
  of that quotient. (\<^verbatim>\<open>int\<close> rounds towards zero, which differs from the floor only on
  a negative quotient, where no order is issued.) The quotient is computed as the code
  does, in doubles: the product is rounded, then the quotient of the rounded product. With
  a portfolio of 100000, a fraction of 0.95 and a close of 123.45 the size is 769; with a
  close of 6.08 it is 15625, and with a portfolio of 19 and a close of 18.05 it is 1, the
  rounded quotients being 15625.0 and 1.0.
\<close>

theorem size_is_floor:
  "(position e = 0 \<and> golden_cross e \<and>
    fdiv (fmul (getvalue e) (position_pct p)) (data_close e 0) = Inr (Fin q) \<longrightarrow>
      next_bar p s e =
        (if 1 \<le> \<lfloor>q\<rfloor>
         then Inr (s\<lparr>stop_price := Some (entry_stop p e)\<rparr>, [EnterLong \<lfloor>q\<rfloor>])
         else Inr (s, NoAction))) \<and>
   (next_bar p s e = Inr (s', ds) \<and> EnterLong n \<in> set ds \<longrightarrow>
      (\<exists>q. fdiv (fmul (getvalue e) (position_pct p)) (data_close e 0) = Inr (Fin q) \<and>
           n = \<lfloor>q\<rfloor>)) \<and>
   (getvalue e = Fin v \<and> position_pct p = Fin f \<and> fround (v * f) = Fin u \<and>
    data_close e 0 = Fin c \<and> c \<noteq> 0 \<longrightarrow>
      fdiv (fmul (getvalue e) (position_pct p)) (data_close e 0) = Inr (fround (u / c)))"
proof -
  have a: "next_bar p s e =
        (if 1 \<le> \<lfloor>q\<rfloor>
         then Inr (s\<lparr>stop_price := Some (entry_stop p e)\<rparr>, [EnterLong \<lfloor>q\<rfloor>])
         else Inr (s, NoAction))"
    if h: "position e = 0 \<and> golden_cross e \<and>
      fdiv (fmul (getvalue e) (position_pct p)) (data_close e 0) = Inr (Fin q)"
  proof -
    from h have "entry_size p e = Inr (if 0 \<le> q then \<lfloor>q\<rfloor> else \<lceil>q\<rceil>)"
      by (simp add: entry_size_quotient)
    with h show ?thesis
      using trunc_ge_1 [of q] trunc_eq_floor [of q]
      by (simp add: next_bar_flat)
  qed
  have b: "\<exists>q. fdiv (fmul (getvalue e) (position_pct p)) (data_close e 0) = Inr (Fin q) \<and>
      n = \<lfloor>q\<rfloor>"
    if h: "next_bar p s e = Inr (s', ds) \<and> EnterLong n \<in> set ds"
  proof -
    from h have sz: "entry_size p e = Inr n" and n: "1 \<le> n"
      by (cases "position e = 0";
          auto simp: next_bar_flat next_bar_open split: if_splits sum.splits)+
    from entry_size_Inr [OF sz] obtain q
      where q: "fdiv (fmul (getvalue e) (position_pct p)) (data_close e 0) = Inr (Fin q)"
        and nq: "n = (if 0 \<le> q then \<lfloor>q\<rfloor> else \<lceil>q\<rceil>)"
      by blast
    from n nq have "1 \<le> \<lfloor>q\<rfloor>"
      by (simp add: trunc_ge_1)
    with nq have "n = \<lfloor>q\<rfloor>"
      by (simp add: trunc_eq_floor)
    with q show ?thesis by blast
  qed
  have c: "fdiv (fmul (getvalue e) (position_pct p)) (data_close e 0) = Inr (fround (u / c))"
    if "getvalue e = Fin v \<and> position_pct p = Fin f \<and> fround (v * f) = Fin u \<and>
      data_close e 0 = Fin c \<and> c \<noteq> 0"
    using that by simp
  from a b c show ?thesis by blast
qed

theorem size_is_floor_witness:
  "next_bar default_params strategy_init (cross_bar (fround (12345 / 100))) =
     Inr (strategy_init\<lparr>stop_price := Some (Fin (7561121561889997 / 70368744177664))\<rparr>,
          [EnterLong 769]) \<and>
   (\<exists>q. fdiv (fmul (getvalue (cross_bar (fround (12345 / 100)))) (position_pct default_params))
          (data_close (cross_bar (fround (12345 / 100))) 0) = Inr (Fin q) \<and> 769 = \<lfloor>q\<rfloor>) \<and>
   fdiv (fmul (getvalue (cross_bar (fround (608 / 100)))) (position_pct default_params))
     (data_close (cross_bar (fround (608 / 100))) 0) = Inr (Fin 15625) \<and>
   next_bar default_params strategy_init (cross_bar (fround (608 / 100))) =
     Inr (strategy_init\<lparr>stop_price :=
            Some (entry_stop default_params (cross_bar (fround (608 / 100))))\<rparr>,
          [EnterLong 15625]) \<and>
   next_bar default_params strategy_init
     (bar 0 (fround (1805 / 100)) (Fin 101) (Fin 100) (Fin 99) (Fin 100) (Fin 2) (Fin 19)) =
     Inr (strategy_init\<lparr>stop_price := Some (Fin (577023702256845 / 281474976710656))\<rparr>,
          [EnterLong 1])"
proof -
  let ?e1 = "cross_bar (fround (12345 / 100))"
  let ?e2 = "cross_bar (fround (608 / 100))"
  let ?e3 = "bar 0 (fround (1805 / 100)) (Fin 101) (Fin 100) (Fin 99) (Fin 100) (Fin 2) (Fin 19)"
  have g: "position ?e1 = 0 \<and> golden_cross ?e1" "position ?e2 = 0 \<and> golden_cross ?e2"
    "position ?e3 = 0 \<and> golden_cross ?e3"
    by (simp_all add: bar_def cross_bar_def golden_cross_def fgt_def)
  have q1: "fdiv (fmul (getvalue ?e1) (position_pct default_params)) (data_close ?e1 0) =
      Inr (Fin (3384482936856055 / 4398046511104))"
    by code_simp
  have f1: "\<lfloor>3384482936856055 / 4398046511104 :: rat\<rfloor> = 769"
    by (simp add: floor_eq_iff)
  have s1: "entry_stop default_params ?e1 = Fin (7561121561889997 / 70368744177664)"
    by code_simp
  from g(1) q1 size_is_floor
    [where e = ?e1 and p = default_params and q = "3384482936856055 / 4398046511104"
       and s = strategy_init]
  have n1: "next_bar default_params strategy_init ?e1 =
      Inr (strategy_init\<lparr>stop_price := Some (Fin (7561121561889997 / 70368744177664))\<rparr>,
           [EnterLong 769])"
    unfolding f1 s1 by simp
  have m: "EnterLong 769 \<in> set [EnterLong 769]"
    by simp
  from n1 m size_is_floor
    [where e = ?e1 and p = default_params and s = strategy_init
       and s' = "strategy_init\<lparr>stop_price := Some (Fin (7561121561889997 / 70368744177664))\<rparr>"
       and ds = "[EnterLong 769]" and n = 769]
  have x1: "\<exists>q. fdiv (fmul (getvalue ?e1) (position_pct default_params)) (data_close ?e1 0) =
      Inr (Fin q) \<and> 769 = \<lfloor>q\<rfloor>"
    by blast
  have v2: "getvalue ?e2 = Fin 100000 \<and>
      position_pct default_params = Fin (4278419646001971 / 4503599627370496) \<and>
      fround (100000 * (4278419646001971 / 4503599627370496)) = Fin 95000 \<and>
      data_close ?e2 0 = Fin (3422735716801577 / 562949953421312) \<and>
      (3422735716801577 / 562949953421312 :: rat) \<noteq> 0"
    by code_simp
  have r2: "fround (95000 / (3422735716801577 / 562949953421312)) = Fin 15625"
    by code_simp
  from v2 size_is_floor
    [where e = ?e2 and p = default_params and v = 100000
       and f = "4278419646001971 / 4503599627370496" and u = 95000
       and c = "3422735716801577 / 562949953421312"]
  have "fdiv (fmul (getvalue ?e2) (position_pct default_params)) (data_close ?e2 0) =
      Inr (fround (95000 / (3422735716801577 / 562949953421312)))"
    by blast
  then have q2: "fdiv (fmul (getvalue ?e2) (position_pct default_params)) (data_close ?e2 0) =
      Inr (Fin 15625)"
    unfolding r2 .
  from g(2) q2 size_is_floor [where e = ?e2 and p = default_params and q = 15625
      and s = strategy_init]
  have n2: "next_bar default_params strategy_init ?e2 =
      Inr (strategy_init\<lparr>stop_price := Some (entry_stop default_params ?e2)\<rparr>,
           [EnterLong 15625])"
    by simp
  have q3: "fdiv (fmul (getvalue ?e3) (position_pct default_params)) (data_close ?e3 0) =
      Inr (Fin 1)"
    by code_simp
  have s3: "entry_stop default_params ?e3 = Fin (577023702256845 / 281474976710656)"
    by code_simp
  from g(3) q3 size_is_floor [where e = ?e3 and p = default_params and q = 1
      and s = strategy_init]
  have n3: "next_bar default_params strategy_init ?e3 =
      Inr (strategy_init\<lparr>stop_price := Some (Fin (577023702256845 / 281474976710656))\<rparr>,
           [EnterLong 1])"
    unfolding s3 by simp
  from n1 x1 q2 n2 n3 show ?thesis by blast
qed

text \<open>
  Claim C7. When the golden cross holds and the floor of the float quotient
  \<^verbatim>\<open>(portfolio_value * position_pct) / close\<close> is 0, the computed size is 0 and
  \<^verbatim>\<open>next\<close> returns normally, issues no order and leaves the state as it was:
  \<^verbatim>\<open>self.stop_price\<close> is not assigned. The same holds for every computed size below 1.
\<close>

theorem degenerate_size_is_silent:
  "(position e = 0 \<and> golden_cross e \<and>
    fdiv (fmul (getvalue e) (position_pct p)) (data_close e 0) = Inr (Fin q) \<and> \<lfloor>q\<rfloor> = 0 \<longrightarrow>
      entry_size p e = Inr 0 \<and> next_bar p s e = Inr (s, NoAction)) \<and>
   (position e = 0 \<and> entry_size p e = Inr n \<and> n < 1 \<longrightarrow> next_bar p s e = Inr (s, NoAction))"
proof -
  have a: "entry_size p e = Inr 0 \<and> next_bar p s e = Inr (s, NoAction)"
    if h: "position e = 0 \<and> golden_cross e \<and>
      fdiv (fmul (getvalue e) (position_pct p)) (data_close e 0) = Inr (Fin q) \<and> \<lfloor>q\<rfloor> = 0"
  proof -
    from h have "0 \<le> q"
      by (simp add: floor_eq_iff)
    with h have "entry_size p e = Inr 0"
      by (simp add: entry_size_quotient)
    with h show ?thesis
      by (simp add: next_bar_flat)
  qed
  have b: "next_bar p s e = Inr (s, NoAction)"
    if "position e = 0 \<and> entry_size p e = Inr n \<and> n < 1"
    using that by (simp add: next_bar_flat)
  from a b show ?thesis by blast
qed

theorem degenerate_size_is_silent_witness:
  "position (cross_bar (Fin 200000)) = 0 \<and> golden_cross (cross_bar (Fin 200000)) \<and>
   fdiv (fmul (getvalue (cross_bar (Fin 200000))) (position_pct default_params))
     (data_close (cross_bar (Fin 200000)) 0) = Inr (Fin (4278419646001971 / 9007199254740992)) \<and>
   \<lfloor>4278419646001971 / 9007199254740992 :: rat\<rfloor> = 0 \<and>
   entry_size default_params (cross_bar (Fin 200000)) = Inr 0 \<and>
   next_bar default_params holding (cross_bar (Fin 200000)) = Inr (holding, NoAction) \<and>
   entry_size default_params (cross_bar (Fin (- 5))) = Inr (- 19000) \<and>
   next_bar default_params holding (cross_bar (Fin (- 5))) = Inr (holding, NoAction)"
proof -
  let ?e = "cross_bar (Fin 200000)"
  have g: "position ?e = 0 \<and> golden_cross ?e"
    by (simp add: bar_def cross_bar_def golden_cross_def fgt_def)
  have q: "fdiv (fmul (getvalue ?e) (position_pct default_params)) (data_close ?e 0) =
      Inr (Fin (4278419646001971 / 9007199254740992))"
    by code_simp
  have f: "\<lfloor>4278419646001971 / 9007199254740992 :: rat\<rfloor> = 0"
    by (simp add: floor_eq_iff)
  from g q f degenerate_size_is_silent
    [where e = ?e and p = default_params and q = "4278419646001971 / 9007199254740992"
       and s = holding]
  have r: "entry_size default_params ?e = Inr 0 \<and>
      next_bar default_params holding ?e = Inr (holding, NoAction)"
    by blast
  have p5: "position (cross_bar (Fin (- 5))) = 0"
    by (simp add: bar_def cross_bar_def)
  have s5: "entry_size default_params (cross_bar (Fin (- 5))) = Inr (- 19000)"
    by code_simp
  from p5 s5 degenerate_size_is_silent
    [where e = "cross_bar (Fin (- 5))" and p = default_params and n = "- 19000" and s = holding]
  have "next_bar default_params holding (cross_bar (Fin (- 5))) = Inr (holding, NoAction)"
    by simp
  with g q f r s5 show ?thesis by blast
qed

text \<open>
  Claim C5. A buy assigns \<open>close - atr * stop_atr_multiplier\<close> to \<^verbatim>\<open>self.stop_price\<close>
  (84 for a close of 100, an average true range of 2 and a multiplier of 8), and no order
  notification changes it. On a later bar with the position open, no trend reversal and a
  close that is not negative, a close below the stored stop issues the stop-loss exit
  (83.99 against 84 does).
\<close>

theorem stop_set_at_entry_and_hit:
  "(position e = 0 \<and> golden_cross e \<and> entry_size p e = Inr n \<and> 1 \<le> n \<longrightarrow>
      next_bar p s e =
        Inr (s\<lparr>stop_price :=
                 Some (fsub (data_close e 0) (fmul (atr e 0) (stop_atr_multiplier p)))\<rparr>,
             [EnterLong n])) \<and>
   stop_price (notify_order s' ord) = stop_price s' \<and>
   (position e' \<noteq> 0 \<and> \<not> flt (fast_ema e' 0) (slow_ema e' 0) \<and>
    stop_price s' = Some sp \<and> fle (Fin 0) (data_close e' 0) \<and> flt (data_close e' 0) sp \<longrightarrow>
      next_bar p s' e' = Inr (s', [ExitPosition Stop_loss]))"
proof -
  have entry: "next_bar p s e =
        Inr (s\<lparr>stop_price :=
                 Some (fsub (data_close e 0) (fmul (atr e 0) (stop_atr_multiplier p)))\<rparr>,
             [EnterLong n])"
    if "position e = 0 \<and> golden_cross e \<and> entry_size p e = Inr n \<and> 1 \<le> n"
    using that by (simp add: next_bar_flat entry_stop_def)
  have kept: "stop_price (notify_order s' ord) = stop_price s'"
    by (rule notify_order_stop_price)
  have hit: "next_bar p s' e' = Inr (s', [ExitPosition Stop_loss])"
    if h: "position e' \<noteq> 0 \<and> \<not> flt (fast_ema e' 0) (slow_ema e' 0) \<and>
      stop_price s' = Some sp \<and> fle (Fin 0) (data_close e' 0) \<and> flt (data_close e' 0) sp"
  proof -
    from h have "truthy (Some sp)"
      using stop_above_close_truthy by blast
    with h have "stop_hit s' e'"
      by (simp add: stop_hit_def)
    with h show ?thesis
      by (simp add: next_bar_open)
  qed
  from entry kept hit show ?thesis by blast
qed

theorem stop_set_at_entry_and_hit_witness:
  "position (cross_bar (Fin 100)) = 0 \<and> golden_cross (cross_bar (Fin 100)) \<and>
   entry_size default_params (cross_bar (Fin 100)) = Inr 950 \<and>
   next_bar default_params strategy_init (cross_bar (Fin 100)) =
     Inr (strategy_init\<lparr>stop_price := Some (Fin 84)\<rparr>, [EnterLong 950]) \<and>
   stop_price (notify_order ordered (filled Buy (Fin 100))) = Some (Fin 84) \<and>
   fround (8399 / 100) = Fin (5910270823481999 / 70368744177664) \<and>
   position (holding_bar 950 (fround (8399 / 100))) \<noteq> 0 \<and>
   \<not> flt (fast_ema (holding_bar 950 (fround (8399 / 100))) 0)
         (slow_ema (holding_bar 950 (fround (8399 / 100))) 0) \<and>
   stop_price holding = Some (Fin 84) \<and>
   fle (Fin 0) (data_close (holding_bar 950 (fround (8399 / 100))) 0) \<and>
   flt (data_close (holding_bar 950 (fround (8399 / 100))) 0) (Fin 84) \<and>
   next_bar default_params holding (holding_bar 950 (fround (8399 / 100))) =
     Inr (holding, [ExitPosition Stop_loss])"
proof -
  let ?e = "cross_bar (Fin 100)"
  let ?e' = "holding_bar 950 (fround (8399 / 100))"
  have h1: "position ?e = 0 \<and> golden_cross ?e \<and>
      entry_size default_params ?e = Inr 950 \<and> (1::int) \<le> 950"
    by code_simp
  have st: "fsub (data_close ?e 0) (fmul (atr ?e 0) (stop_atr_multiplier default_params)) =
      Fin 84"
    by code_simp
  have r: "fround (8399 / 100) = Fin (5910270823481999 / 70368744177664)"
    by code_simp
  have h2: "position ?e' \<noteq> 0 \<and> \<not> flt (fast_ema ?e' 0) (slow_ema ?e' 0) \<and>
      stop_price holding = Some (Fin 84) \<and> fle (Fin 0) (data_close ?e' 0) \<and>
      flt (data_close ?e' 0) (Fin 84)"
    unfolding r by (simp add: bar_def holding_bar_def holding_def)
  note t = stop_set_at_entry_and_hit
    [where e = ?e and p = default_params and n = 950 and s = strategy_init
       and e' = ?e' and s' = holding and sp = "Fin 84"]
  from t h1 have a: "next_bar default_params strategy_init ?e =
      Inr (strategy_init\<lparr>stop_price := Some (Fin 84)\<rparr>, [EnterLong 950])"
    unfolding st by blast
  from stop_set_at_entry_and_hit [where s' = ordered and ord = "filled Buy (Fin 100)"]
  have k: "stop_price (notify_order ordered (filled Buy (Fin 100))) = Some (Fin 84)"
    by (simp add: ordered_def)
  from t h2 have b: "next_bar default_params holding ?e' = Inr (holding, [ExitPosition Stop_loss])"
    by blast
  from h1 h2 a k r b show ?thesis by blast
qed

section \<open>Exit\<close>

text \<open>
  Claim C2. With a position open, when the fast average is below the slow one and the
  close is below the stored stop on the same bar, \<^verbatim>\<open>next\<close> issues exactly one exit,
  and it is the trend reversal one: the trend test returns before the stop test is
  reached. No call of \<^verbatim>\<open>next\<close> issues more than one order.
\<close>

theorem trend_reversal_before_stop:
  "(position e \<noteq> 0 \<and> flt (fast_ema e 0) (slow_ema e 0) \<and>
      stop_price s = Some sp \<and> flt (data_close e 0) sp \<longrightarrow>
      next_bar p s e = Inr (s, [ExitPosition Trend_reversal])) \<and>
   (next_bar p s e = Inr (s', ds) \<longrightarrow> length ds \<le> 1)"
  by (auto simp: next_bar_def split: if_splits sum.splits)

theorem trend_reversal_before_stop_witness:
  "position (reversal_bar 950 (Fin 80)) \<noteq> 0 \<and>
   flt (fast_ema (reversal_bar 950 (Fin 80)) 0) (slow_ema (reversal_bar 950 (Fin 80)) 0) \<and>
   stop_price holding = Some (Fin 84) \<and>
   flt (data_close (reversal_bar 950 (Fin 80)) 0) (Fin 84) \<and>
   next_bar default_params holding (reversal_bar 950 (Fin 80)) =
     Inr (holding, [ExitPosition Trend_reversal]) \<and>
   length [ExitPosition Trend_reversal] \<le> (1::nat)"
proof -
  have h: "position (reversal_bar 950 (Fin 80)) \<noteq> 0 \<and>
   flt (fast_ema (reversal_bar 950 (Fin 80)) 0) (slow_ema (reversal_bar 950 (Fin 80)) 0) \<and>
   stop_price holding = Some (Fin 84) \<and>
   flt (data_close (reversal_bar 950 (Fin 80)) 0) (Fin 84)"
    by (simp add: bar_def reversal_bar_def holding_def default_params_def)
  have t: "next_bar default_params holding (reversal_bar 950 (Fin 80)) =
     Inr (holding, [ExitPosition Trend_reversal])"
    using trend_reversal_before_stop
      [of "reversal_bar 950 (Fin 80)" holding "Fin 84" default_params] h
    by blast
  have "length [ExitPosition Trend_reversal] \<le> (1::nat)"
    using trend_reversal_before_stop
      [of "reversal_bar 950 (Fin 80)" holding "Fin 84" default_params holding
          "[ExitPosition Trend_reversal]"] t
    by blast
  with h t show ?thesis by blast
qed

text \<open>
  Claim C10. With a position open, the stop test is guarded by the truth value of
  \<^verbatim>\<open>self.stop_price\<close>: when it is \<^verbatim>\<open>None\<close> or exactly \<^verbatim>\<open>0.0\<close> the only exit
  that \<^verbatim>\<open>next\<close> can issue is the trend reversal one, whatever the close; and a stop-loss
  exit is issued only from a stop price that is set and not zero.
\<close>

theorem falsy_stop_never_fires:
  "(position e \<noteq> 0 \<and> (stop_price s = None \<or> stop_price s = Some (Fin 0)) \<longrightarrow>
      next_bar p s e =
        Inr (s, if flt (fast_ema e 0) (slow_ema e 0) then [ExitPosition Trend_reversal]
                else NoAction)) \<and>
   (next_bar p s e = Inr (s', ds) \<and> ExitPosition Stop_loss \<in> set ds \<longrightarrow>
      truthy (stop_price s) \<and> stop_price s \<noteq> None \<and> stop_price s \<noteq> Some (Fin 0))"
proof -
  have skipped: "next_bar p s e =
        Inr (s, if flt (fast_ema e 0) (slow_ema e 0) then [ExitPosition Trend_reversal]
                else NoAction)"
    if a: "position e \<noteq> 0 \<and> (stop_price s = None \<or> stop_price s = Some (Fin 0))"
  proof -
    from a have "\<not> stop_hit s e"
      by (auto simp: stop_hit_def)
    with a show ?thesis
      by (simp add: next_bar_open)
  qed
  have fired: "truthy (stop_price s) \<and> stop_price s \<noteq> None \<and> stop_price s \<noteq> Some (Fin 0)"
    if b: "next_bar p s e = Inr (s', ds) \<and> ExitPosition Stop_loss \<in> set ds"
  proof -
    from b have "stop_hit s e"
      using stop_loss_emitted by blast
    then have "truthy (stop_price s)"
      by (simp add: stop_hit_def)
    then show ?thesis
      by (simp add: truthy_iff)
  qed
  from skipped fired show ?thesis by blast
qed

theorem falsy_stop_never_fires_witness:
  "position (holding_bar 950 (Fin (- 50))) \<noteq> 0 \<and>
   next_bar default_params (holding\<lparr>stop_price := Some (Fin 0)\<rparr>) (holding_bar 950 (Fin (- 50))) =
     Inr (holding\<lparr>stop_price := Some (Fin 0)\<rparr>, NoAction) \<and>
   next_bar default_params (holding\<lparr>stop_price := None\<rparr>) (reversal_bar 950 (Fin 1)) =
     Inr (holding\<lparr>stop_price := None\<rparr>, [ExitPosition Trend_reversal]) \<and>
   next_bar default_params holding (holding_bar 950 (Fin 80)) =
     Inr (holding, [ExitPosition Stop_loss]) \<and>
   truthy (stop_price holding)"
proof -
  have p1: "position (holding_bar 950 (Fin (- 50))) \<noteq> 0"
    and p2: "position (reversal_bar 950 (Fin 1)) \<noteq> 0"
    by (simp_all add: bar_def holding_bar_def reversal_bar_def holding_def default_params_def)
  have a: "next_bar default_params (holding\<lparr>stop_price := Some (Fin 0)\<rparr>)
      (holding_bar 950 (Fin (- 50))) = Inr (holding\<lparr>stop_price := Some (Fin 0)\<rparr>, NoAction)"
    using falsy_stop_never_fires
      [of "holding_bar 950 (Fin (- 50))" "holding\<lparr>stop_price := Some (Fin 0)\<rparr>" default_params] p1
    by (simp add: bar_def holding_bar_def reversal_bar_def holding_def default_params_def)
  have b: "next_bar default_params (holding\<lparr>stop_price := None\<rparr>) (reversal_bar 950 (Fin 1)) =
     Inr (holding\<lparr>stop_price := None\<rparr>, [ExitPosition Trend_reversal])"
    using falsy_stop_never_fires
      [of "reversal_bar 950 (Fin 1)" "holding\<lparr>stop_price := None\<rparr>" default_params] p2
    by (simp add: bar_def holding_bar_def reversal_bar_def holding_def default_params_def)
  have c: "next_bar default_params holding (holding_bar 950 (Fin 80)) =
     Inr (holding, [ExitPosition Stop_loss])"
    by (simp add: bar_def holding_bar_def reversal_bar_def holding_def default_params_def
        next_defs)
  have "truthy (stop_price holding)"
    using falsy_stop_never_fires
      [of "holding_bar 950 (Fin 80)" holding default_params holding "[ExitPosition Stop_loss]"] c
    by simp
  with p1 a b c show ?thesis by blast
qed

section \<open>State and order notifications\<close>

text \<open>
  Claim C4, as the code has it. A completed sell order resets \<^verbatim>\<open>self.entry_price\<close> to
  \<^verbatim>\<open>None\<close> and changes nothing else: \<^verbatim>\<open>self.stop_price\<close> and
  \<^verbatim>\<open>self.trade_count\<close> keep their values.
\<close>

theorem exit_fill_resets_entry_price:
  "status ord = Completed \<and> issell ord \<longrightarrow>
     notify_order s ord = s\<lparr>entry_price := None\<rparr> \<and>
     entry_price (notify_order s ord) = None \<and>
     stop_price (notify_order s ord) = stop_price s \<and>
     trade_count (notify_order s ord) = trade_count s"
  by (cases "side ord") (simp_all add: notify_order_def isbuy_def issell_def)

theorem exit_fill_resets_entry_price_witness:
  "status (filled Sell (Fin 90)) = Completed \<and> issell (filled Sell (Fin 90)) \<and>
   entry_price (notify_order holding (filled Sell (Fin 90))) = None \<and>
   stop_price (notify_order holding (filled Sell (Fin 90))) = Some (Fin 84) \<and>
   trade_count (notify_order holding (filled Sell (Fin 90))) = 1"
proof -
  have h: "status (filled Sell (Fin 90)) = Completed \<and> issell (filled Sell (Fin 90))"
    by (simp add: filled_def issell_def)
  with exit_fill_resets_entry_price [of "filled Sell (Fin 90)" holding]
  have "entry_price (notify_order holding (filled Sell (Fin 90))) = None \<and>
     stop_price (notify_order holding (filled Sell (Fin 90))) = stop_price holding \<and>
     trade_count (notify_order holding (filled Sell (Fin 90))) = trade_count holding"
    by blast
  with h show ?thesis by (simp add: holding_def)
qed

text \<open>
  The stop price is not reset: after an entry at 100 with its fill, a trend reversal exit
  and its fill, the stop price is still 84.
\<close>

theorem exit_fill_keeps_stop_counterexample:
  "next_bar default_params strategy_init (cross_bar (Fin 100)) = Inr (ordered, [EnterLong 950]) \<and>
   notify_order ordered (filled Buy (Fin 100)) = holding \<and>
   next_bar default_params holding (reversal_bar 950 (Fin 90)) =
     Inr (holding, [ExitPosition Trend_reversal]) \<and>
   status (filled Sell (Fin 90)) = Completed \<and> issell (filled Sell (Fin 90)) \<and>
   stop_price (notify_order holding (filled Sell (Fin 90))) = Some (Fin 84) \<and>
   stop_price (notify_order holding (filled Sell (Fin 90))) \<noteq> None"
  using entry_at_100
  by (simp add: bar_def reversal_bar_def ordered_def holding_def filled_def
      next_bar_def stop_hit_def notify_order_def isbuy_def issell_def)

text \<open>
  Claim C3, as the code has it. A notification whose status is not \<^verbatim>\<open>Completed\<close>
  changes no attribute. \<^verbatim>\<open>next\<close> never changes \<^verbatim>\<open>self.entry_price\<close> or
  \<^verbatim>\<open>self.trade_count\<close>; it changes \<^verbatim>\<open>self.stop_price\<close> only in the call that issues
  a buy, and then at once, before any fill. So after an order that does not fill, the state
  is the one \<^verbatim>\<open>next\<close> returned, and the same bar presented again gives the same orders
  and the same state.
\<close>

theorem state_changes_and_rejected_fills:
  "(status ord \<noteq> Completed \<longrightarrow> notify_order s ord = s) \<and>
   (next_bar p s e = Inr (s', ds) \<longrightarrow>
      entry_price s' = entry_price s \<and> trade_count s' = trade_count s \<and>
      (s' = s \<or> (position e = 0 \<and> (\<exists>n. ds = [EnterLong n]) \<and>
                 s' = s\<lparr>stop_price := Some (entry_stop p e)\<rparr>)) \<and>
      ((\<forall>n. EnterLong n \<notin> set ds) \<longrightarrow> s' = s)) \<and>
   (next_bar p s e = Inr (s', ds) \<and> status ord \<noteq> Completed \<longrightarrow>
      notify_order s' ord = s' \<and> next_bar p (notify_order s' ord) e = Inr (s', ds))"
proof -
  have a: "notify_order s ord = s" if "status ord \<noteq> Completed"
    using that by (rule notify_order_unfilled)
  have b: "entry_price s' = entry_price s \<and> trade_count s' = trade_count s \<and>
      (s' = s \<or> (position e = 0 \<and> (\<exists>n. ds = [EnterLong n]) \<and>
                 s' = s\<lparr>stop_price := Some (entry_stop p e)\<rparr>)) \<and>
      ((\<forall>n. EnterLong n \<notin> set ds) \<longrightarrow> s' = s)"
    if "next_bar p s e = Inr (s', ds)"
    using next_bar_state [OF that] by auto
  have c: "notify_order s' ord = s' \<and> next_bar p (notify_order s' ord) e = Inr (s', ds)"
    if "next_bar p s e = Inr (s', ds) \<and> status ord \<noteq> Completed"
    using that next_bar_again [of p s e s' ds] by (simp add: notify_order_unfilled)
  from a b c show ?thesis by blast
qed

theorem state_changes_and_rejected_fills_witness:
  "status (refused Buy) \<noteq> Completed \<and>
   next_bar default_params strategy_init (cross_bar (Fin 100)) = Inr (ordered, [EnterLong 950]) \<and>
   entry_price ordered = entry_price strategy_init \<and>
   trade_count ordered = trade_count strategy_init \<and>
   notify_order ordered (refused Buy) = ordered \<and>
   next_bar default_params (notify_order ordered (refused Buy)) (cross_bar (Fin 100)) =
     Inr (ordered, [EnterLong 950]) \<and>
   status (refused Sell) \<noteq> Completed \<and>
   next_bar default_params holding (reversal_bar 950 (Fin 90)) =
     Inr (holding, [ExitPosition Trend_reversal]) \<and>
   next_bar default_params (notify_order holding (refused Sell)) (reversal_bar 950 (Fin 90)) =
     Inr (holding, [ExitPosition Trend_reversal])"
proof -
  have r: "status (refused Buy) \<noteq> Completed" "status (refused Sell) \<noteq> Completed"
    by (simp_all add: refused_def)
  have n1: "next_bar default_params strategy_init (cross_bar (Fin 100)) =
      Inr (ordered, [EnterLong 950])"
    by (rule entry_at_100)
  have n2: "next_bar default_params holding (reversal_bar 950 (Fin 90)) =
     Inr (holding, [ExitPosition Trend_reversal])"
    by (simp add: bar_def reversal_bar_def holding_def next_bar_def)
  note t1 = state_changes_and_rejected_fills
    [where ord = "refused Buy" and s = strategy_init and p = default_params
       and e = "cross_bar (Fin 100)" and s' = ordered and ds = "[EnterLong 950]"]
  note t2 = state_changes_and_rejected_fills
    [where ord = "refused Sell" and s = holding and p = default_params
       and e = "reversal_bar 950 (Fin 90)" and s' = holding
       and ds = "[ExitPosition Trend_reversal]"]
  from t1 r n1 have e1: "entry_price ordered = entry_price strategy_init \<and>
      trade_count ordered = trade_count strategy_init \<and>
      notify_order ordered (refused Buy) = ordered \<and>
      next_bar default_params (notify_order ordered (refused Buy)) (cross_bar (Fin 100)) =
        Inr (ordered, [EnterLong 950])"
    by blast
  from t2 r n2 have e2:
    "next_bar default_params (notify_order holding (refused Sell)) (reversal_bar 950 (Fin 90)) =
     Inr (holding, [ExitPosition Trend_reversal])"
    by blast
  from r n1 n2 e1 e2 show ?thesis by blast
qed

text \<open>
  The stop price does change when the buy is refused: from \<^verbatim>\<open>None\<close> to 84 here.
\<close>

theorem rejected_entry_keeps_stop_counterexample:
  "stop_price strategy_init = None \<and>
   next_bar default_params strategy_init (cross_bar (Fin 100)) = Inr (ordered, [EnterLong 950]) \<and>
   status (refused Buy) \<noteq> Completed \<and>
   notify_order ordered (refused Buy) = ordered \<and>
   stop_price (notify_order ordered (refused Buy)) = Some (Fin 84) \<and>
   notify_order ordered (refused Buy) \<noteq> strategy_init"
  using entry_at_100
  by (simp add: ordered_def refused_def strategy_init_def notify_order_def)

section \<open>Malformed values\<close>




end
